theory Spec2Isabelle
  imports Complex_Main "HOL-Library.Log_Nat"
begin

section \<open>Token estimator (docker_app/app.py)\<close>

text \<open>
  Python evaluates \<^verbatim>\<open>len(text_str) // 3.2\<close> in double precision. The literal
  \<^verbatim>\<open>3.2\<close> denotes the double nearest to 3.2, which is the rational
  3602879701896397 / 2^50, slightly above 16/5. For every length below 2^50, float floor
  division returns the floor of the exact quotient of the two doubles (its last step
  corrects the rounding of the intermediate ones), so the model computes with rationals.
  A text is a list of characters and \<open>length\<close> is Python's \<^verbatim>\<open>len\<close>.
  The results are floats or ints holding whole numbers; the model uses \<open>int\<close>.
\<close>

definition chars_per_token :: rat where
  "chars_per_token = 3602879701896397 / 1125899906842624"

definition estimate_tokens_from_text :: "string \<Rightarrow> int" where
  "estimate_tokens_from_text text =
     (if text = [] then 0
      else max 1 \<lfloor>of_nat (length text) / chars_per_token\<rfloor>)"

text \<open>
  The formula of the specification, for comparison: the ceiling of the length over the
  exact number 3.2, bounded below by 1.
\<close>

definition estimate_tokens_spec :: "string \<Rightarrow> int" where
  "estimate_tokens_spec text = max 1 \<lceil>(of_nat (length text) :: rat) / (32 / 10)\<rceil>"

subsection \<open>Conversation size\<close>

text \<open>
  A content block of an agent message is a dictionary. The code observes two things of
  it: whether it has a \<^verbatim>\<open>"text"\<close> key (and its value), and its
  \<^verbatim>\<open>json.dumps\<close> rendering.
\<close>

record block =
  block_text :: "string option"
  block_json :: string

text \<open>
  \<^verbatim>\<open>calculate_conversation_tokens\<close> tests the shape of what it is given with
  \<^verbatim>\<open>isinstance\<close>; every shape it distinguishes is a constructor. A message or an item
  that is not a dictionary is represented by its \<^verbatim>\<open>str\<close> rendering, which is what the
  code passes to the estimator. A content that is not a list is passed as it is: it is
  represented by the empty text when it is false in Python (\<^verbatim>\<open>None\<close>, \<^verbatim>\<open>0\<close>, an empty
  string or container), for which the estimator returns 0, and by its \<^verbatim>\<open>str\<close> rendering
  otherwise. \<^verbatim>\<open>json.dumps\<close> is taken to return: content blocks are JSON data.
\<close>

datatype py_item = DictItem block | OtherItem string

datatype py_content = ContentList "py_item list" | ContentOther string

datatype py_message = DictMessage string py_content | OtherMessage string

fun add_item_tokens :: "py_item \<Rightarrow> int \<Rightarrow> int" where
  "add_item_tokens (DictItem b) total_tokens =
     total_tokens + estimate_tokens_from_text (block_json b)"
| "add_item_tokens (OtherItem s) total_tokens =
     total_tokens + estimate_tokens_from_text s"

fun add_message_tokens :: "py_message \<Rightarrow> int \<Rightarrow> int" where
  "add_message_tokens (DictMessage r (ContentList items)) total_tokens =
     fold add_item_tokens items (total_tokens + estimate_tokens_from_text r)"
| "add_message_tokens (DictMessage r (ContentOther c)) total_tokens =
     total_tokens + estimate_tokens_from_text r + estimate_tokens_from_text c"
| "add_message_tokens (OtherMessage s) total_tokens =
     total_tokens + estimate_tokens_from_text s"

definition calculate_conversation_tokens :: "py_message list \<Rightarrow> string \<Rightarrow> int" where
  "calculate_conversation_tokens agent_messages system_prompt =
     fold add_message_tokens agent_messages (0 + estimate_tokens_from_text system_prompt)"

text \<open>The text that the estimator is applied to, for each item and each message.\<close>

fun item_text :: "py_item \<Rightarrow> string" where
  "item_text (DictItem b) = block_json b"
| "item_text (OtherItem s) = s"

fun message_texts :: "py_message \<Rightarrow> string list" where
  "message_texts (DictMessage r (ContentList items)) = r # map item_text items"
| "message_texts (DictMessage r (ContentOther c)) = [r, c]"
| "message_texts (OtherMessage s) = [s]"

section \<open>Usage accounting of a chat turn (docker_app/app.py)\<close>

text \<open>
  A usage value is what \<^verbatim>\<open>m.get("usage")\<close>, \<^verbatim>\<open>agent.usage\<close> or
  \<^verbatim>\<open>response.usage\<close> yields: \<^verbatim>\<open>None\<close> or a dictionary from keys to token counts.
  \<open>truthy\<close> is Python's truth test: \<^verbatim>\<open>None\<close> and the empty dictionary are false.
\<close>

datatype usage_val = UsageNone | UsageDict "(string \<times> int) list"

fun truthy :: "usage_val \<Rightarrow> bool" where
  "truthy UsageNone = False"
| "truthy (UsageDict kvs) = (kvs \<noteq> [])"

text \<open>
  \<^verbatim>\<open>usage_metrics.get(key, 0)\<close>. The code calls it on truthy values only, so the
  equation for \<^verbatim>\<open>None\<close> is never used.
\<close>

fun usage_get :: "usage_val \<Rightarrow> string \<Rightarrow> int \<Rightarrow> int" where
  "usage_get (UsageDict kvs) k d = (case map_of kvs k of None \<Rightarrow> d | Some v \<Rightarrow> v)"
| "usage_get UsageNone k d = d"

text \<open>
  A message of \<^verbatim>\<open>agent.messages\<close>: a dictionary with a role, a list of content blocks
  and possibly a usage entry (\<open>UsageNone\<close> when the key is absent).
\<close>

record message =
  role :: string
  content :: "block list"
  usage :: usage_val

definition as_py :: "message \<Rightarrow> py_message" where
  "as_py m = DictMessage (role m) (ContentList (map DictItem (content m)))"

text \<open>The inner loop over the content items: the first item with a text key, if any.\<close>

fun first_text :: "block list \<Rightarrow> string option" where
  "first_text [] = None"
| "first_text (b # bs) = (case block_text b of Some t \<Rightarrow> Some t | None \<Rightarrow> first_text bs)"

text \<open>
  One iteration of the loop over \<^verbatim>\<open>agent.messages\<close>, on the pair
  (\<^verbatim>\<open>assistant_response\<close>, \<^verbatim>\<open>usage_metrics\<close>).
\<close>

fun scan_message :: "message \<Rightarrow> string \<times> usage_val \<Rightarrow> string \<times> usage_val" where
  "scan_message m (assistant_response, usage_metrics) =
     ((if role m = ''assistant'' \<and> content m \<noteq> [] then
         (case first_text (content m) of Some t \<Rightarrow> t | None \<Rightarrow> assistant_response)
       else assistant_response),
      (if truthy (usage m) then usage m else usage_metrics))"

text \<open>
  What one call of the agent leaves behind for the handler: the agent's messages, and the
  \<^verbatim>\<open>usage\<close> attribute of the agent and of the response (\<open>None\<close> when
  \<^verbatim>\<open>hasattr\<close> is false).
\<close>

record turn =
  prompt :: string
  agent_messages :: "message list"
  agent_usage :: "usage_val option"
  response_usage :: "usage_val option"

definition extract_response :: "turn \<Rightarrow> string \<times> usage_val" where
  "extract_response t =
     (let (assistant_response, usage_metrics) =
            fold scan_message (agent_messages t) ([], UsageNone);
          usage_metrics = (case agent_usage t of Some u \<Rightarrow> u | None \<Rightarrow> usage_metrics);
          usage_metrics = (case response_usage t of Some u \<Rightarrow> u | None \<Rightarrow> usage_metrics)
      in (assistant_response, usage_metrics))"

text \<open>
  The three totals live under three keys of the session state, created together and
  deleted together by the reset button: \<open>None\<close> is "the keys are absent".
  The running totals carry the cost as an exact rational; the cost of one request as the
  source computes it, in double precision, is \<open>request_cost\<close> below.
\<close>

record ledger =
  total_tokens :: int
  total_cost :: rat
  total_requests :: int

definition init_totals :: "ledger option \<Rightarrow> ledger" where
  "init_totals l = (case l of
       None \<Rightarrow> \<lparr>total_tokens = 0, total_cost = 0, total_requests = 0\<rparr>
     | Some x \<Rightarrow> x)"

text \<open>
  The branch on \<^verbatim>\<open>if usage_metrics:\<close>. It returns the new totals and the usage
  metrics that the request display is given afterwards.
\<close>

definition account_usage ::
  "string \<Rightarrow> message list \<Rightarrow> string \<Rightarrow> usage_val \<Rightarrow> ledger option \<Rightarrow> ledger \<times> usage_val" where
  "account_usage system_prompt msgs assistant_response usage_metrics l =
     (if truthy usage_metrics then
        (let input_tokens = usage_get usage_metrics ''inputTokens'' 0;
             output_tokens = usage_get usage_metrics ''outputTokens'' 0;
             tokens = input_tokens + output_tokens;
             input_cost = (of_int input_tokens / 1000000) * 3;
             output_cost = (of_int output_tokens / 1000000) * 15;
             cost = input_cost + output_cost;
             s = init_totals l
         in (s\<lparr>total_tokens := total_tokens s + tokens,
                total_cost := total_cost s + cost,
                total_requests := total_requests s + 1\<rparr>,
             usage_metrics))
      else
        (let estimated_input_tokens =
               calculate_conversation_tokens (map as_py msgs) system_prompt;
             estimated_output_tokens = estimate_tokens_from_text assistant_response;
             estimated_total_tokens = estimated_input_tokens + estimated_output_tokens;
             estimated_input_cost = (of_int estimated_input_tokens / 1000000) * 3;
             estimated_output_cost = (of_int estimated_output_tokens / 1000000) * 15;
             estimated_total_cost = estimated_input_cost + estimated_output_cost;
             s = init_totals l
         in (s\<lparr>total_tokens := total_tokens s + estimated_total_tokens,
                total_cost := total_cost s + estimated_total_cost,
                total_requests := total_requests s + 1\<rparr>,
             UsageDict [(''inputTokens'', estimated_input_tokens),
                        (''outputTokens'', estimated_output_tokens)])))"

section \<open>The cost of one request, in double precision\<close>


definition exponent :: "rat \<Rightarrow> int" where
  "exponent x =
     (let (p, q) = quotient_of x; d = bitlen p - bitlen q
      in if 2 powi d \<le> x then d else d - 1)"




section \<open>Tool providers, the agent and the session state\<close>

text \<open>
  An MCP client is seen through the outcomes of the three calls the code makes on it:
  \<^verbatim>\<open>__enter__\<close> (an error message when it raises), \<^verbatim>\<open>list_tools_sync\<close> (an error message
  or the tools, by name) and \<^verbatim>\<open>__exit__\<close>. The exceptions are instances of
  \<^verbatim>\<open>Exception\<close>, the class the handlers catch.
\<close>

record mcp_client =
  enter_error :: "string option"
  list_tools_sync :: "string + string list"
  exit_error :: "string option"

record bedrock_model =
  model_id :: string
  max_tokens :: nat

record conversation_manager =
  summary_ratio :: rat
  preserve_recent_messages :: nat

record agent =
  agent_model :: bedrock_model
  agent_system_prompt :: string
  agent_tools :: "string list"
  agent_conversation_manager :: conversation_manager

text \<open>A message of the chat history shown on the page, and an entry of the stream buffer.\<close>

record chat_message =
  msg_role :: string
  msg_type :: "string option"
  msg_content :: string

record buffer_entry =
  entry_type :: string
  entry_content :: string

text \<open>
  The keys of \<^verbatim>\<open>st.session_state\<close> that the two applications use; the key
  \<^verbatim>\<open>output\<close> is the field \<open>session_output\<close>, and the three totals are \<open>totals\<close>.
\<close>

record session_state =
  messages :: "chat_message list"
  totals :: "ledger option"
  session_output :: "buffer_entry list"
  agent :: "agent option"
  billing_mcp_client :: "mcp_client option"
  aws_api_mcp_client :: "mcp_client option"
  start_index :: nat

section \<open>The chat input handler (docker_app/app.py)\<close>

definition chat_turn :: "string \<Rightarrow> turn \<Rightarrow> session_state \<Rightarrow> session_state" where
  "chat_turn system_prompt t st =
     (let st1 = st\<lparr>messages := messages st @
                   [\<lparr>msg_role = ''user'', msg_type = None, msg_content = prompt t\<rparr>]\<rparr>;
          (assistant_response, usage_metrics) = extract_response t;
          (l, usage_metrics) =
             account_usage system_prompt (agent_messages t) assistant_response
               usage_metrics (totals st1)
      in st1\<lparr>totals := Some l,
              messages := messages st1 @
                [\<lparr>msg_role = ''assistant'', msg_type = None, msg_content = assistant_response\<rparr>],
              start_index := length (agent_messages t)\<rparr>)"

text \<open>The usage metrics of a turn as the handler ends up with them, and its token counts.\<close>

definition turn_usage :: "string \<Rightarrow> turn \<Rightarrow> usage_val" where
  "turn_usage system_prompt t =
     (let (assistant_response, usage_metrics) = extract_response t
      in snd (account_usage system_prompt (agent_messages t) assistant_response
                usage_metrics None))"

definition turn_input_tokens :: "string \<Rightarrow> turn \<Rightarrow> int" where
  "turn_input_tokens system_prompt t =
     usage_get (turn_usage system_prompt t) ''inputTokens'' 0"

definition turn_output_tokens :: "string \<Rightarrow> turn \<Rightarrow> int" where
  "turn_output_tokens system_prompt t =
     usage_get (turn_usage system_prompt t) ''outputTokens'' 0"

text \<open>The cost of the specification: linear in the token counts, at given rates.\<close>

definition linear_cost :: "rat \<Rightarrow> rat \<Rightarrow> int \<Rightarrow> int \<Rightarrow> rat" where
  "linear_cost input_rate output_rate input_tokens output_tokens =
     of_int input_tokens / 1000000 * input_rate + of_int output_tokens / 1000000 * output_rate"

text \<open>The reset button deletes the three keys.\<close>

definition reset_stats :: "session_state \<Rightarrow> session_state" where
  "reset_stats st = st\<lparr>totals := None\<rparr>"

section \<open>The streaming chat handler (docker_app/app_streaming.py)\<close>

text \<open>
  The keyword arguments of one callback. Of \<^verbatim>\<open>current_tool_use\<close> the handler reads
  the name (\<^verbatim>\<open>.get("name")\<close>) and the input, through \<^verbatim>\<open>str\<close>; an absent input key
  raises \<^verbatim>\<open>KeyError\<close>, which the handler catches.
\<close>

record tool_use =
  tu_name :: "string option"
  tu_input :: "string option"

record callback_event =
  data :: "string option"
  current_tool_use :: "tool_use option"
  reasoningText :: "string option"

definition add_or_append :: "string \<Rightarrow> string \<Rightarrow> buffer_entry list \<Rightarrow> buffer_entry list" where
  "add_or_append ty s output_buffer =
     (if length output_buffer = 0 \<or> entry_type (last output_buffer) \<noteq> ty then
        output_buffer @ [\<lparr>entry_type = ty, entry_content = s\<rparr>]
      else
        butlast output_buffer @
          [(last output_buffer)\<lparr>entry_content := entry_content (last output_buffer) @ s\<rparr>])"

definition tool_use_named :: "callback_event \<Rightarrow> bool" where
  "tool_use_named ev =
     (case current_tool_use ev of
        None \<Rightarrow> False
      | Some tu \<Rightarrow> (case tu_name tu of None \<Rightarrow> False | Some n \<Rightarrow> n \<noteq> []))"

definition custom_callback_handler ::
  "callback_event \<Rightarrow> buffer_entry list \<Rightarrow> buffer_entry list" where
  "custom_callback_handler ev output_buffer =
     (case data ev of
        Some d \<Rightarrow> add_or_append ''data'' d output_buffer
      | None \<Rightarrow>
          if tool_use_named ev then
            (case tu_input (the (current_tool_use ev)) of
               None \<Rightarrow> output_buffer
             | Some i \<Rightarrow>
                 output_buffer @
                   [\<lparr>entry_type = ''tool_use'',
                     entry_content = ''Using tool: '' @ the (tu_name (the (current_tool_use ev)))
                                       @ '' with args: '' @ i\<rparr>])
          else
            (case reasoningText ev of
               Some r \<Rightarrow> add_or_append ''reasoning'' r output_buffer
             | None \<Rightarrow> output_buffer))"

record streaming_turn =
  s_prompt :: string
  events :: "callback_event list"

definition assistant_message :: "buffer_entry \<Rightarrow> chat_message" where
  "assistant_message output_item =
     \<lparr>msg_role = ''assistant'', msg_type = Some (entry_type output_item),
      msg_content = entry_content output_item\<rparr>"

definition streaming_chat_turn :: "streaming_turn \<Rightarrow> session_state \<Rightarrow> session_state" where
  "streaming_chat_turn t st =
     (let st1 = st\<lparr>messages := messages st @
                   [\<lparr>msg_role = ''user'', msg_type = None, msg_content = s_prompt t\<rparr>]\<rparr>;
          st2 = st1\<lparr>session_output := []\<rparr>;
          output_buffer = fold custom_callback_handler (events t) [];
          st3 = st2\<lparr>session_output := output_buffer\<rparr>
      in st3\<lparr>messages := messages st3 @ map assistant_message (session_output st3)\<rparr>)"

text \<open>No two neighbours of the list have the type \<open>ty\<close>.\<close>

fun no_adjacent :: "string \<Rightarrow> buffer_entry list \<Rightarrow> bool" where
  "no_adjacent ty [] = True"
| "no_adjacent ty [x] = True"
| "no_adjacent ty (x # y # xs) =
     (\<not> (entry_type x = ty \<and> entry_type y = ty) \<and> no_adjacent ty (y # xs))"

section \<open>Creating the model\<close>

definition default_model_id :: string where
  "default_model_id = ''us.anthropic.claude-3-7-sonnet-20250219-v1:0''"

text \<open>
  The only rates in the source are the two constants of the chat handler, documented
  there as the pricing of Claude 3.7 Sonnet: as a table, one entry.
\<close>

definition rate_table :: "(string \<times> rat \<times> rat) list" where
  "rate_table = [(default_model_id, 3, 15)]"

datatype startup_error = ConfigError string

text \<open>
  docker_app/app.py builds the model with a fixed identifier; docker_app/app_streaming.py
  reads \<^verbatim>\<open>os.getenv("BEDROCK_MODEL_ID", default)\<close>. Neither looks the identifier up
  anywhere, and neither has a statement that raises.
\<close>

definition create_model :: "(string \<times> string) list \<Rightarrow> startup_error + bedrock_model" where
  "create_model env = Inr \<lparr>model_id = default_model_id, max_tokens = 64000\<rparr>"

definition create_model_streaming ::
  "(string \<times> string) list \<Rightarrow> startup_error + bedrock_model" where
  "create_model_streaming env =
     (let model_id = (case map_of env ''BEDROCK_MODEL_ID'' of
                        None \<Rightarrow> default_model_id
                      | Some v \<Rightarrow> v)
      in Inr \<lparr>model_id = model_id, max_tokens = 8192\<rparr>)"

section \<open>Initialising the agent\<close>

text \<open>
  What the initialisation meets outside the program: an error in preparing the
  environment and the billing client, the switch \<^verbatim>\<open>ENABLE_AWS_API_SERVER\<close>, the two
  clients, an error in constructing the AWS API client, an error in listing the tools on
  the page, and whether the \<^verbatim>\<open>Agent\<close> constructor raises for a list of tools.
\<close>

record world =
  setup_error :: "string option"
  enable_aws_api :: bool
  billing_client :: mcp_client
  aws_api_client_error :: "string option"
  aws_api_client :: mcp_client
  tools_display_error :: "string option"
  agent_error :: "string list \<Rightarrow> string option"
  the_model :: bedrock_model
  system_prompt :: string
  finops_conversation_manager :: conversation_manager

definition new_agent :: "world \<Rightarrow> string list \<Rightarrow> string + agent" where
  "new_agent w tools =
     (case agent_error w tools of
        Some e \<Rightarrow> Inl e
      | None \<Rightarrow> Inr \<lparr>agent_model = the_model w, agent_system_prompt = system_prompt w,
                      agent_tools = tools,
                      agent_conversation_manager = finops_conversation_manager w\<rparr>)"

text \<open>The two \<^verbatim>\<open>try\<close> blocks that start a provider; each handler only reports.\<close>

definition start_billing ::
  "mcp_client \<Rightarrow> session_state \<times> string list \<Rightarrow> session_state \<times> string list" where
  "start_billing billing_mcp_client' p =
     (case p of (st, all_tools) \<Rightarrow>
        (case enter_error billing_mcp_client' of
           Some e \<Rightarrow> (st, all_tools)
         | None \<Rightarrow>
             (let st1 = st\<lparr>billing_mcp_client := Some billing_mcp_client'\<rparr> in
                (case list_tools_sync billing_mcp_client' of
                   Inl e \<Rightarrow> (st1, all_tools)
                 | Inr billing_tools \<Rightarrow> (st1, all_tools @ billing_tools)))))"

definition start_aws_api ::
  "mcp_client \<Rightarrow> session_state \<times> string list \<Rightarrow> session_state \<times> string list" where
  "start_aws_api aws_api_mcp_client' p =
     (case p of (st, all_tools) \<Rightarrow>
        (case enter_error aws_api_mcp_client' of
           Some e \<Rightarrow> (st, all_tools)
         | None \<Rightarrow>
             (let st1 = st\<lparr>aws_api_mcp_client := Some aws_api_mcp_client'\<rparr> in
                (case list_tools_sync aws_api_mcp_client' of
                   Inl e \<Rightarrow> (st1, all_tools)
                 | Inr aws_api_tools \<Rightarrow> (st1, all_tools @ aws_api_tools)))))"

definition load_tools :: "world \<Rightarrow> session_state \<Rightarrow> session_state \<times> string list" where
  "load_tools w st =
     (let aws_api_mcp_client' =
            (if enable_aws_api w then
               (case aws_api_client_error w of
                  None \<Rightarrow> Some (aws_api_client w)
                | Some e \<Rightarrow> None)
             else None);
          p = start_billing (billing_client w) (st, [])
      in (case aws_api_mcp_client' of
            Some c \<Rightarrow> start_aws_api c p
          | None \<Rightarrow> p))"

definition load_tools_streaming :: "world \<Rightarrow> session_state \<Rightarrow> session_state \<times> string list" where
  "load_tools_streaming w st = start_billing (billing_client w) (st, [])"

text \<open>
  The inner \<^verbatim>\<open>try\<close>: with tools, they are listed on the page and the agent is built
  with them; with none, the agent is built with the empty list. Its handler builds the
  agent with the empty list, and an exception there leaves the block.
\<close>

definition create_agent :: "world \<Rightarrow> string list \<Rightarrow> string + agent" where
  "create_agent w raw_mcp_tools =
     (case (if raw_mcp_tools \<noteq> [] then
              (case tools_display_error w of
                 Some e \<Rightarrow> Inl e
               | None \<Rightarrow> new_agent w raw_mcp_tools)
            else new_agent w []) of
        Inr a \<Rightarrow> Inr a
      | Inl e \<Rightarrow> new_agent w [])"

text \<open>
  The outer \<^verbatim>\<open>try\<close>, run when the session has no agent yet. Its handler builds the
  fallback agent; an exception there is not caught (\<open>Inl\<close>). What the body stored in the
  session before it raised stays stored.
\<close>

definition finish_init ::
  "world \<Rightarrow> (string \<times> session_state) + session_state \<Rightarrow> string + session_state" where
  "finish_init w body =
     (case body of
        Inr st \<Rightarrow> Inr st
      | Inl (e, st) \<Rightarrow>
          (case new_agent w [] of
             Inl e' \<Rightarrow> Inl e'
           | Inr a \<Rightarrow> Inr (st\<lparr>agent := Some a\<rparr>)))"

definition init_body ::
  "world \<Rightarrow> session_state \<times> string list \<Rightarrow> (string \<times> session_state) + session_state" where
  "init_body w p =
     (case p of (st, raw_mcp_tools) \<Rightarrow>
        (case create_agent w raw_mcp_tools of
           Inl e \<Rightarrow> Inl (e, st)
         | Inr a \<Rightarrow> Inr (st\<lparr>agent := Some a\<rparr>)))"

definition initialize_agent :: "world \<Rightarrow> session_state \<Rightarrow> string + session_state" where
  "initialize_agent w st =
     (if agent st \<noteq> None then Inr st
      else finish_init w
             (case setup_error w of
                Some e \<Rightarrow> Inl (e, st)
              | None \<Rightarrow> init_body w (load_tools w st)))"

definition initialize_agent_streaming :: "world \<Rightarrow> session_state \<Rightarrow> string + session_state" where
  "initialize_agent_streaming w st =
     (if agent st \<noteq> None then Inr st
      else finish_init w
             (case setup_error w of
                Some e \<Rightarrow> Inl (e, st)
              | None \<Rightarrow> init_body w (load_tools_streaming w st)))"

text \<open>The tools the agent is built with when nothing fails on the way.\<close>

definition init_fails :: "world \<Rightarrow> string list \<Rightarrow> bool" where
  "init_fails w raw_mcp_tools =
     (setup_error w \<noteq> None \<or> raw_mcp_tools = [] \<or> tools_display_error w \<noteq> None
      \<or> agent_error w raw_mcp_tools \<noteq> None)"

definition fallback_agent :: "world \<Rightarrow> agent" where
  "fallback_agent w =
     \<lparr>agent_model = the_model w, agent_system_prompt = system_prompt w, agent_tools = [],
      agent_conversation_manager = finops_conversation_manager w\<rparr>"

text \<open>The tools a provider contributes: none when starting it or listing its tools raises.\<close>

definition provider_tools :: "mcp_client \<Rightarrow> string list" where
  "provider_tools c =
     (case enter_error c of
        Some e \<Rightarrow> []
      | None \<Rightarrow> (case list_tools_sync c of Inl e \<Rightarrow> [] | Inr ts \<Rightarrow> ts))"

section \<open>Closing the tool providers\<close>

text \<open>
  The body of each \<^verbatim>\<open>try\<close> calls \<^verbatim>\<open>__exit__\<close> and reports; the handler reports the
  error. The result is the list of reports, or \<open>Inl\<close> for an exception that leaves
  \<^verbatim>\<open>cleanup_mcp_clients\<close>.
\<close>

datatype report = SessionClosed string | ErrorClosing string string

definition exit_client :: "string \<Rightarrow> mcp_client \<Rightarrow> string + report" where
  "exit_client name c =
     (case exit_error c of
        Some e \<Rightarrow> Inl e
      | None \<Rightarrow> Inr (SessionClosed name))"

definition try_exit :: "string \<Rightarrow> mcp_client option \<Rightarrow> string + report list" where
  "try_exit name key =
     (case key of
        None \<Rightarrow> Inr []
      | Some c \<Rightarrow>
          (case exit_client name c of
             Inr r \<Rightarrow> Inr [r]
           | Inl e \<Rightarrow> Inr [ErrorClosing name e]))"

definition cleanup_mcp_clients :: "session_state \<Rightarrow> string + report list" where
  "cleanup_mcp_clients st =
     (case try_exit ''Billing'' (billing_mcp_client st) of
        Inl e \<Rightarrow> Inl e
      | Inr r1 \<Rightarrow>
          (case try_exit ''AWS API'' (aws_api_mcp_client st) of
             Inl e \<Rightarrow> Inl e
           | Inr r2 \<Rightarrow> Inr (r1 @ r2)))"

definition cleanup_mcp_clients_streaming :: "session_state \<Rightarrow> string + report list" where
  "cleanup_mcp_clients_streaming st = try_exit ''Billing'' (billing_mcp_client st)"

text \<open>The clients on which \<^verbatim>\<open>__exit__\<close> was called, from the reports.\<close>

fun report_name :: "report \<Rightarrow> string" where
  "report_name (SessionClosed n) = n"
| "report_name (ErrorClosing n e) = n"

section \<open>A session and turns to run the definitions on\<close>

definition new_session :: session_state where
  "new_session =
     \<lparr>messages = [], totals = None, session_output = [], agent = None,
      billing_mcp_client = None, aws_api_mcp_client = None, start_index = 0\<rparr>"

definition exact_turn :: turn where
  "exact_turn =
     \<lparr>prompt = ''What did I spend?'',
      agent_messages =
        [\<lparr>role = ''user'',
          content = [\<lparr>block_text = Some ''What did I spend?'',
                      block_json = ''{\"text\": \"What did I spend?\"}''\<rparr>],
          usage = UsageNone\<rparr>,
         \<lparr>role = ''assistant'',
          content = [\<lparr>block_text = Some ''You spent $5.'',
                      block_json = ''{\"text\": \"You spent $5.\"}''\<rparr>],
          usage = UsageNone\<rparr>],
      agent_usage = None,
      response_usage = Some (UsageDict [(''inputTokens'', 100), (''outputTokens'', 50)])\<rparr>"

definition estimated_turn :: turn where
  "estimated_turn = exact_turn\<lparr>response_usage := None\<rparr>"

definition streamed_turn :: streaming_turn where
  "streamed_turn =
     \<lparr>s_prompt = ''What did I spend?'',
      events = [\<lparr>data = Some ''You spent '', current_tool_use = None, reasoningText = None\<rparr>,
                \<lparr>data = Some ''$5.'', current_tool_use = None, reasoningText = None\<rparr>]\<rparr>"

definition tool_turn :: streaming_turn where
  "tool_turn =
     \<lparr>s_prompt = ''What did I spend?'',
      events =
        [\<lparr>data = None,
          current_tool_use = Some \<lparr>tu_name = Some ''get_cost'', tu_input = Some []\<rparr>,
          reasoningText = None\<rparr>,
         \<lparr>data = None,
          current_tool_use = Some \<lparr>tu_name = Some ''get_cost'', tu_input = Some ''{\"days\": 30}''\<rparr>,
          reasoningText = None\<rparr>]\<rparr>"

definition short_prompt :: string where
  "short_prompt = ''You are a FinOps AI Assistant''"

definition failing_client :: mcp_client where
  "failing_client =
     \<lparr>enter_error = Some ''server exited'', list_tools_sync = Inl ''not connected'',
      exit_error = Some ''not running''\<rparr>"

definition working_client :: mcp_client where
  "working_client =
     \<lparr>enter_error = None, list_tools_sync = Inr [''call_aws'', ''suggest_aws_commands''],
      exit_error = None\<rparr>"

definition example_world :: world where
  "example_world =
     \<lparr>setup_error = None, enable_aws_api = True, billing_client = failing_client,
      aws_api_client_error = None, aws_api_client = working_client,
      tools_display_error = None, agent_error = (\<lambda>tools. None),
      the_model = \<lparr>model_id = default_model_id, max_tokens = 64000\<rparr>,
      system_prompt = short_prompt,
      finops_conversation_manager = \<lparr>summary_ratio = 3 / 10, preserve_recent_messages = 15\<rparr>\<rparr>"

definition unknown_model_env :: "(string \<times> string) list" where
  "unknown_model_env = [(''BEDROCK_MODEL_ID'', ''amazon.nova-pro-v1:0'')]"

definition all_failing_world :: world where
  "all_failing_world = example_world\<lparr>aws_api_client := failing_client\<rparr>"

section \<open>The estimator: results\<close>

lemma floor_chars_per_token:
  "\<lfloor>of_nat n / chars_per_token\<rfloor> = (int n * 1125899906842624) div 3602879701896397"
proof -
  have "(of_nat n / chars_per_token :: rat) =
          of_int (int n * 1125899906842624) / of_int 3602879701896397"
    by (simp add: chars_per_token_def)
  then show ?thesis
    by (simp only: floor_divide_of_int_eq)
qed

text \<open>
  Five times the double 3.2 is \<open>16 * 2^50 + 1\<close>: the quotient by it is the quotient by
  16/5, less one exactly at the multiples of 16.
\<close>

lemma div_double_3_2:
  assumes "0 < n" "n < 2 ^ 50"
  shows "(int n * 1125899906842624) div 3602879701896397 =
           (5 * int n) div 16 - (if 16 dvd n then 1 else 0)"
proof -
  define N where "N = int n"
  define q where "q = (5 * N) div 16"
  define r where "r = (5 * N) mod 16"
  have N: "0 < N" "N < 1125899906842624" using assms by (simp_all add: N_def)
  have split: "5 * N = 16 * q + r" by (simp add: q_def r_def)
  have r: "0 \<le> r" "r < 16" by (simp_all add: r_def)
  have q: "0 \<le> q" "q < 1125899906842624" using N split r by linarith+
  have dvd: "(16 dvd n) = (r = 0)"
  proof -
    have "(16 dvd n) = (16 dvd N)" unfolding N_def by presburger
    also have "\<dots> = (r = 0)" unfolding r_def by presburger
    finally show ?thesis .
  qed
  have step: "(N * 1125899906842624) div 3602879701896397
      = (5 * (N * 1125899906842624)) div (5 * 3602879701896397)"
    by simp
  show ?thesis
  proof (cases "r = 0")
    case True
    have "0 < q" using N split True by linarith
    have "(5 * (N * 1125899906842624)) div (5 * 3602879701896397) = q - 1"
    proof (rule int_div_pos_eq)
      show "5 * (N * 1125899906842624) =
              5 * 3602879701896397 * (q - 1) + (5 * 3602879701896397 - q)"
        using split True by (simp add: algebra_simps)
      show "0 \<le> 5 * 3602879701896397 - q" using q by simp
      show "5 * 3602879701896397 - q < 5 * 3602879701896397" using \<open>0 < q\<close> by simp
    qed
    then show ?thesis using step True dvd by (simp add: N_def q_def)
  next
    case False
    then have r1: "1 \<le> r" using r by simp
    have "(5 * (N * 1125899906842624)) div (5 * 3602879701896397) = q"
    proof (rule int_div_pos_eq)
      show "5 * (N * 1125899906842624) =
              5 * 3602879701896397 * q + (r * 1125899906842624 - q)"
        using split by (simp add: algebra_simps)
      show "0 \<le> r * 1125899906842624 - q" using q r1 by linarith
      show "r * 1125899906842624 - q < 5 * 3602879701896397" using q r by linarith
    qed
    then show ?thesis using step False dvd by (simp add: N_def q_def)
  qed
qed

lemma fold_add_item_tokens:
  "fold add_item_tokens items acc =
     acc + sum_list (map (\<lambda>i. estimate_tokens_from_text (item_text i)) items)"
proof (induction items arbitrary: acc)
  case Nil
  show ?case by simp
next
  case (Cons i items)
  show ?case by (cases i) (simp_all add: Cons.IH)
qed

lemma add_message_tokens_sum:
  "add_message_tokens m acc =
     acc + sum_list (map estimate_tokens_from_text (message_texts m))"
proof (cases m)
  case (DictMessage r c)
  then show ?thesis
    by (cases c) (simp_all add: fold_add_item_tokens comp_def)
next
  case (OtherMessage s)
  then show ?thesis by simp
qed

lemma fold_add_message_tokens:
  "fold add_message_tokens msgs acc =
     acc + sum_list (map estimate_tokens_from_text (concat (map message_texts msgs)))"
  by (induction msgs arbitrary: acc) (simp_all add: add_message_tokens_sum)

text \<open>
  C1, as stated, fails: on a text of four characters the code returns 1, the floor of
  4 / 3.2, where the formula of the specification gives the ceiling, 2.
\<close>

theorem estimate_tokens_ceiling_counterexample:
  "estimate_tokens_from_text ''abcd'' = 1 \<and> estimate_tokens_spec ''abcd'' = 2"
  by code_simp

text \<open>
  C1, amended: for a non-empty text of length L (below 2^50) the estimate is
  max(1, floor(L / 3.2)) with the division done in double precision, that is the integer
  quotient of 5 L by 16, less one when 16 divides L; and the conversation estimate is the
  estimate of the system prompt plus the sum of the estimates of each message's role and
  of the one-level text rendering of each of its content items.
\<close>

theorem estimate_tokens_floor:
  assumes "text \<noteq> []" and "length text < 2 ^ 50"
  shows "estimate_tokens_from_text text =
           max 1 ((5 * int (length text)) div 16 - (if 16 dvd length text then 1 else 0))
         \<and> calculate_conversation_tokens msgs sp =
             estimate_tokens_from_text sp
             + sum_list (map estimate_tokens_from_text (concat (map message_texts msgs)))"
proof
  have "0 < length text" using assms(1) by simp
  from div_double_3_2 [OF this assms(2)] assms(1)
  show "estimate_tokens_from_text text =
          max 1 ((5 * int (length text)) div 16 - (if 16 dvd length text then 1 else 0))"
    by (simp only: estimate_tokens_from_text_def floor_chars_per_token if_False)
  show "calculate_conversation_tokens msgs sp =
          estimate_tokens_from_text sp
          + sum_list (map estimate_tokens_from_text (concat (map message_texts msgs)))"
    by (simp add: calculate_conversation_tokens_def fold_add_message_tokens)
qed

theorem estimate_tokens_floor_witness:
  "estimate_tokens_from_text ''abcdabcdabcdabcd'' = 4
   \<and> calculate_conversation_tokens
       [DictMessage ''user'' (ContentList
          [DictItem \<lparr>block_text = Some ''hi'', block_json = ''{\"text\": \"hi\"}''\<rparr>])]
       ''You are a FinOps AI Assistant'' = 14"
proof -
  have h1: "''abcdabcdabcdabcd'' \<noteq> []" by simp
  have h2: "length ''abcdabcdabcdabcd'' < 2 ^ 50" by simp
  have len: "length ''abcdabcdabcdabcd'' = 16" by simp
  have e1: "estimate_tokens_from_text ''You are a FinOps AI Assistant'' = 9" by code_simp
  have e2: "estimate_tokens_from_text ''user'' = 1" by code_simp
  have e3: "estimate_tokens_from_text ''{\"text\": \"hi\"}'' = 4" by code_simp
  from estimate_tokens_floor [OF h1 h2,
      of "[DictMessage ''user'' (ContentList
          [DictItem \<lparr>block_text = Some ''hi'', block_json = ''{\"text\": \"hi\"}''\<rparr>])]"
         "''You are a FinOps AI Assistant''"]
  show ?thesis
    unfolding len by (simp add: e1 e2 e3)
qed

text \<open>
  C8: the estimator is a function of its text alone (equal texts, equal counts); it
  returns 0 on the empty text and at least 1 on every other text.
\<close>

theorem estimate_tokens_pure:
  "estimate_tokens_from_text [] = 0
   \<and> (text \<noteq> [] \<longrightarrow> 1 \<le> estimate_tokens_from_text text)
   \<and> (s = t \<longrightarrow> estimate_tokens_from_text s = estimate_tokens_from_text t)"
  by (simp add: estimate_tokens_from_text_def)

theorem estimate_tokens_pure_witness:
  "estimate_tokens_from_text [] = 0 \<and> 1 \<le> estimate_tokens_from_text ''a''
   \<and> estimate_tokens_from_text ''a'' = estimate_tokens_from_text ''a''"
  using estimate_tokens_pure [of "''a''" "''a''" "''a''"] by simp

section \<open>The usage totals: results\<close>

lemma account_usage_truthy:
  "truthy (snd (account_usage sp msgs ar um l))"
  by (simp add: account_usage_def Let_def)

lemma account_usage_exact:
  "truthy um \<Longrightarrow> account_usage sp msgs ar um l =
     ((init_totals l)\<lparr>total_tokens := total_tokens (init_totals l)
          + (usage_get um ''inputTokens'' 0 + usage_get um ''outputTokens'' 0),
        total_cost := total_cost (init_totals l)
          + linear_cost 3 15 (usage_get um ''inputTokens'' 0) (usage_get um ''outputTokens'' 0),
        total_requests := total_requests (init_totals l) + 1\<rparr>, um)"
  by (simp add: account_usage_def Let_def linear_cost_def)

lemma account_usage_estimated:
  "\<not> truthy um \<Longrightarrow> account_usage sp msgs ar um l =
     ((init_totals l)\<lparr>total_tokens := total_tokens (init_totals l)
          + (calculate_conversation_tokens (map as_py msgs) sp + estimate_tokens_from_text ar),
        total_cost := total_cost (init_totals l)
          + linear_cost 3 15 (calculate_conversation_tokens (map as_py msgs) sp)
              (estimate_tokens_from_text ar),
        total_requests := total_requests (init_totals l) + 1\<rparr>,
      UsageDict [(''inputTokens'', calculate_conversation_tokens (map as_py msgs) sp),
                 (''outputTokens'', estimate_tokens_from_text ar)])"
  by (simp add: account_usage_def Let_def linear_cost_def)

lemma account_usage_figures:
  "fst (account_usage sp msgs ar um l) =
     (init_totals l)\<lparr>total_tokens := total_tokens (init_totals l)
          + (usage_get (snd (account_usage sp msgs ar um None)) ''inputTokens'' 0
             + usage_get (snd (account_usage sp msgs ar um None)) ''outputTokens'' 0),
        total_cost := total_cost (init_totals l)
          + linear_cost 3 15 (usage_get (snd (account_usage sp msgs ar um None)) ''inputTokens'' 0)
              (usage_get (snd (account_usage sp msgs ar um None)) ''outputTokens'' 0),
        total_requests := total_requests (init_totals l) + 1\<rparr>"
  by (cases "truthy um") (simp_all add: account_usage_exact account_usage_estimated)

lemma totals_chat_turn:
  "totals (chat_turn sp t st) =
     Some ((init_totals (totals st))\<lparr>total_tokens := total_tokens (init_totals (totals st))
          + (turn_input_tokens sp t + turn_output_tokens sp t),
        total_cost := total_cost (init_totals (totals st))
          + linear_cost 3 15 (turn_input_tokens sp t) (turn_output_tokens sp t),
        total_requests := total_requests (init_totals (totals st)) + 1\<rparr>)"
  by (simp add: chat_turn_def turn_input_tokens_def turn_output_tokens_def turn_usage_def
      Let_def split_beta account_usage_figures)

lemma totals_fold_chat_turn:
  "totals (fold (chat_turn sp) ts st) =
     (if ts = [] then totals st
      else Some ((init_totals (totals st))\<lparr>total_tokens := total_tokens (init_totals (totals st))
          + (\<Sum>t\<leftarrow>ts. turn_input_tokens sp t + turn_output_tokens sp t),
        total_cost := total_cost (init_totals (totals st))
          + (\<Sum>t\<leftarrow>ts. linear_cost 3 15 (turn_input_tokens sp t) (turn_output_tokens sp t)),
        total_requests := total_requests (init_totals (totals st)) + int (length ts)\<rparr>))"
proof (induction ts arbitrary: st)
  case Nil
  show ?case by simp
next
  case (Cons t ts)
  show ?case
    by (simp add: Cons.IH totals_chat_turn init_totals_def add.assoc)
qed

lemma scan_usage:
  "snd (fold scan_message msgs (a, u)) =
     (case filter truthy (map usage msgs) of [] \<Rightarrow> u | us \<Rightarrow> last us)"
proof (induction msgs arbitrary: a u)
  case Nil
  show ?case by simp
next
  case (Cons m msgs)
  show ?case by (simp add: Cons.IH split: list.splits)
qed

lemma totals_streaming: "totals (streaming_chat_turn t st) = totals st"
  by (simp add: streaming_chat_turn_def Let_def)

lemma extract_exact_turn:
  "extract_response exact_turn =
     (''You spent $5.'', UsageDict [(''inputTokens'', 100), (''outputTokens'', 50)])"
  by (simp add: extract_response_def exact_turn_def)

lemma extract_estimated_turn: "extract_response estimated_turn = (''You spent $5.'', UsageNone)"
  by (simp add: extract_response_def exact_turn_def estimated_turn_def)

lemma tokens_estimated_turn:
  "calculate_conversation_tokens (map as_py (agent_messages estimated_turn)) short_prompt = 28"
  by code_simp

lemma tokens_response: "estimate_tokens_from_text ''You spent $5.'' = 4"
  by code_simp

lemma usage_exact_turn:
  "turn_usage sp exact_turn = UsageDict [(''inputTokens'', 100), (''outputTokens'', 50)]"
  by (simp add: turn_usage_def extract_exact_turn account_usage_exact)

lemma usage_estimated_turn:
  "turn_usage short_prompt estimated_turn =
     UsageDict [(''inputTokens'', 28), (''outputTokens'', 4)]"
  by (simp add: turn_usage_def extract_estimated_turn account_usage_estimated
      tokens_estimated_turn tokens_response)

text \<open>
  C2, as stated, fails for the streaming application: its handler completes a turn and
  the session has no totals afterwards, so the turn was counted zero times.
\<close>
theorem streaming_turn_no_totals_counterexample:
  "totals (streaming_chat_turn streamed_turn new_session) = None"
  by (simp add: streaming_chat_turn_def Let_def new_session_def)

text \<open>
  C2, amended: in docker_app/app.py every completed turn updates the three totals exactly
  once (the request count grows by one): by the reported token counts when the usage
  value the handler selected is non-empty, by the estimator's figures otherwise, never
  both. The selected usage value is the response's \<^verbatim>\<open>usage\<close> attribute when it has
  one, else the agent's, else the usage of the last message that carries one. The
  streaming handler of docker_app/app_streaming.py keeps no totals: it leaves them as
  they were.
\<close>
theorem usage_totals_updated_once:
  "totals (chat_turn sp t st) =
     Some ((init_totals (totals st))
       \<lparr>total_tokens := total_tokens (init_totals (totals st))
          + (if truthy (snd (extract_response t)) then
               usage_get (snd (extract_response t)) ''inputTokens'' 0
               + usage_get (snd (extract_response t)) ''outputTokens'' 0
             else calculate_conversation_tokens (map as_py (agent_messages t)) sp
               + estimate_tokens_from_text (fst (extract_response t))),
        total_cost := total_cost (init_totals (totals st))
          + (if truthy (snd (extract_response t)) then
               linear_cost 3 15 (usage_get (snd (extract_response t)) ''inputTokens'' 0)
                 (usage_get (snd (extract_response t)) ''outputTokens'' 0)
             else linear_cost 3 15
                 (calculate_conversation_tokens (map as_py (agent_messages t)) sp)
                 (estimate_tokens_from_text (fst (extract_response t)))),
        total_requests := total_requests (init_totals (totals st)) + 1\<rparr>)
   \<and> snd (extract_response t) =
       (case response_usage t of
          Some u \<Rightarrow> u
        | None \<Rightarrow>
            (case agent_usage t of
               Some u \<Rightarrow> u
             | None \<Rightarrow>
                 (case filter truthy (map usage (agent_messages t)) of
                    [] \<Rightarrow> UsageNone
                  | us \<Rightarrow> last us)))
   \<and> totals (streaming_chat_turn t' st) = totals st"
proof (intro conjI)
  show "totals (chat_turn sp t st) = Some ((init_totals (totals st))
       \<lparr>total_tokens := total_tokens (init_totals (totals st))
          + (if truthy (snd (extract_response t)) then
               usage_get (snd (extract_response t)) ''inputTokens'' 0
               + usage_get (snd (extract_response t)) ''outputTokens'' 0
             else calculate_conversation_tokens (map as_py (agent_messages t)) sp
               + estimate_tokens_from_text (fst (extract_response t))),
        total_cost := total_cost (init_totals (totals st))
          + (if truthy (snd (extract_response t)) then
               linear_cost 3 15 (usage_get (snd (extract_response t)) ''inputTokens'' 0)
                 (usage_get (snd (extract_response t)) ''outputTokens'' 0)
             else linear_cost 3 15
                 (calculate_conversation_tokens (map as_py (agent_messages t)) sp)
                 (estimate_tokens_from_text (fst (extract_response t)))),
        total_requests := total_requests (init_totals (totals st)) + 1\<rparr>)"
    by (cases "truthy (snd (extract_response t))")
      (simp_all add: chat_turn_def Let_def split_beta account_usage_exact
        account_usage_estimated)
  show "snd (extract_response t) =
       (case response_usage t of
          Some u \<Rightarrow> u
        | None \<Rightarrow>
            (case agent_usage t of
               Some u \<Rightarrow> u
             | None \<Rightarrow>
                 (case filter truthy (map usage (agent_messages t)) of
                    [] \<Rightarrow> UsageNone
                  | us \<Rightarrow> last us)))"
    by (simp add: extract_response_def Let_def split_beta scan_usage split: option.splits)
  show "totals (streaming_chat_turn t' st) = totals st"
    by (rule totals_streaming)
qed

theorem usage_totals_updated_once_witness:
  "totals (chat_turn short_prompt exact_turn new_session) =
     Some \<lparr>total_tokens = 150, total_cost = 21 / 20000, total_requests = 1\<rparr>
   \<and> totals (chat_turn short_prompt estimated_turn new_session) =
     Some \<lparr>total_tokens = 32, total_cost = 9 / 62500, total_requests = 1\<rparr>
   \<and> totals (streaming_chat_turn streamed_turn new_session) = None"
proof (intro conjI)
  from usage_totals_updated_once [of short_prompt exact_turn new_session streamed_turn]
  show "totals (chat_turn short_prompt exact_turn new_session) =
     Some \<lparr>total_tokens = 150, total_cost = 21 / 20000, total_requests = 1\<rparr>"
    by (simp add: extract_exact_turn init_totals_def new_session_def linear_cost_def)
  from usage_totals_updated_once [of short_prompt estimated_turn new_session streamed_turn]
  show "totals (chat_turn short_prompt estimated_turn new_session) =
     Some \<lparr>total_tokens = 32, total_cost = 9 / 62500, total_requests = 1\<rparr>"
    by (simp add: extract_estimated_turn init_totals_def new_session_def linear_cost_def
        tokens_estimated_turn tokens_response)
  from usage_totals_updated_once [of short_prompt exact_turn new_session streamed_turn]
  show "totals (streaming_chat_turn streamed_turn new_session) = None"
    by (simp add: new_session_def)
qed

text \<open>
  C3: after any sequence of completed turns since the last reset, the total tokens are
  the sum of the turns' input and output tokens, the total cost is the sum of the turns'
  costs, and the request count is the number of turns, whether a turn's usage was
  reported or estimated. (Before the first turn the totals are absent.)
\<close>
theorem totals_accounting_identity:
  "totals (fold (chat_turn sp) ts (reset_stats st)) =
     (if ts = [] then None
      else Some \<lparr>total_tokens = (\<Sum>t\<leftarrow>ts. turn_input_tokens sp t + turn_output_tokens sp t),
                 total_cost =
                   (\<Sum>t\<leftarrow>ts. linear_cost 3 15 (turn_input_tokens sp t) (turn_output_tokens sp t)),
                 total_requests = int (length ts)\<rparr>)"
  by (simp add: totals_fold_chat_turn reset_stats_def init_totals_def)

theorem totals_accounting_identity_witness:
  "totals (fold (chat_turn short_prompt) [exact_turn, estimated_turn] (reset_stats new_session)) =
     Some \<lparr>total_tokens = 182, total_cost = 597 / 500000, total_requests = 2\<rparr>"
  using totals_accounting_identity [of short_prompt "[exact_turn, estimated_turn]" new_session]
  by (simp add: turn_input_tokens_def turn_output_tokens_def usage_exact_turn
      usage_estimated_turn linear_cost_def)

section \<open>The cost of one request: results\<close>



lemma exponent_less:
  assumes "0 < x"
  shows "x < 2 powi (exponent x + 1)"
proof -
  obtain p q where pq: "quotient_of x = (p, q)" by (cases "quotient_of x")
  have q: "0 < q" using pq by (rule quotient_of_denom_pos)
  have x: "x = of_int p / of_int q" using pq by (rule quotient_of_div)
  have p: "0 < p" using assms q x by (simp add: zero_less_divide_iff)
  define d where "d = bitlen p - bitlen q"
  show ?thesis
  proof (cases "2 powi d \<le> x")
    case False
    then show ?thesis by (simp add: exponent_def pq d_def)
  next
    case True
    have bp: "p < (2::int) ^ nat (bitlen p)" using bitlen_bounds [OF p] by simp
    have bq: "(2::int) ^ nat (bitlen q - 1) \<le> q" using bitlen_bounds [OF q] by simp
    have q1: "1 \<le> bitlen q" using q bitlen_eq_zero_iff [of q] bitlen_nonneg [of q] by linarith
    have "(of_int p :: rat) < of_int (2 ^ nat (bitlen p))" using bp by (simp only: of_int_less_iff)
    also have "\<dots> = 2 powi (bitlen p)"
      using bitlen_nonneg [of p] by (simp add: power_int_def)
    finally have P: "(of_int p :: rat) < 2 powi (bitlen p)" .
    have "(2::rat) powi (bitlen q - 1) = of_int (2 ^ nat (bitlen q - 1))"
      using q1 by (simp add: power_int_def)
    also have "\<dots> \<le> of_int q" using bq by (simp only: of_int_le_iff)
    finally have Q: "(2::rat) powi (bitlen q - 1) \<le> of_int q" .
    have Q0: "(0::rat) < 2 powi (bitlen q - 1)" by simp
    have "x = of_int p / of_int q" by (rule x)
    also have "\<dots> \<le> of_int p / 2 powi (bitlen q - 1)"
      using Q Q0 p by (simp add: frac_le)
    also have "\<dots> < 2 powi (bitlen p) / 2 powi (bitlen q - 1)"
      using P Q0 by (simp add: divide_strict_right_mono)
    also have "\<dots> = 2 powi (bitlen p - (bitlen q - 1))"
      by (rule power_int_diff [symmetric]) simp
    also have "bitlen p - (bitlen q - 1) = d + 1"
      by (simp add: d_def)
    finally show ?thesis using True by (simp add: exponent_def pq d_def)
  qed
qed












section \<open>The stream buffer: results\<close>

lemma no_adjacent_snoc:
  "no_adjacent ty (xs @ [e]) =
     (no_adjacent ty xs \<and> (xs = [] \<or> \<not> (entry_type (last xs) = ty \<and> entry_type e = ty)))"
  by (induction ty xs rule: no_adjacent.induct) auto

lemma no_adjacent_types:
  "map entry_type xs = map entry_type ys \<Longrightarrow> no_adjacent ty xs = no_adjacent ty ys"
proof (induction ty xs arbitrary: ys rule: no_adjacent.induct)
  case (1 ty)
  then show ?case by simp
next
  case (2 ty x)
  then show ?case by (cases ys) auto
next
  case (3 ty x y xs)
  then obtain x' y' ys' where ys: "ys = x' # y' # ys'"
    by (cases ys; cases "tl ys") auto
  have tys: "entry_type x = entry_type x'" "entry_type y = entry_type y'"
    "map entry_type (y # xs) = map entry_type (y' # ys')"
    using "3.prems" ys by simp_all
  have "no_adjacent ty (y # xs) = no_adjacent ty (y' # ys')"
    by (rule "3.IH" [OF tys(3)])
  then show ?case by (simp add: ys tys(1,2))
qed

lemma types_update_last:
  "xs \<noteq> [] \<Longrightarrow>
     map entry_type (butlast xs @ [(last xs)\<lparr>entry_content := c\<rparr>]) = map entry_type xs"
  by (induction xs) auto

lemma no_adjacent_add_or_append:
  assumes "no_adjacent ty' buf"
  shows "no_adjacent ty' (add_or_append ty s buf)"
proof (cases "length buf = 0 \<or> entry_type (last buf) \<noteq> ty")
  case True
  then show ?thesis
    using assms by (auto simp: add_or_append_def no_adjacent_snoc)
next
  case False
  then have ne: "buf \<noteq> []" by auto
  have "no_adjacent ty'
          (butlast buf @ [(last buf)\<lparr>entry_content := entry_content (last buf) @ s\<rparr>]) =
        no_adjacent ty' buf"
    by (rule no_adjacent_types [OF types_update_last [OF ne]])
  with False assms show ?thesis
    by (simp add: add_or_append_def)
qed

lemma no_adjacent_tool_use:
  "ty \<noteq> ''tool_use'' \<Longrightarrow> no_adjacent ty buf \<Longrightarrow>
     no_adjacent ty (buf @ [\<lparr>entry_type = ''tool_use'', entry_content = c\<rparr>])"
  by (simp add: no_adjacent_snoc)

lemma no_adjacent_handler:
  "ty \<noteq> ''tool_use'' \<Longrightarrow> no_adjacent ty buf \<Longrightarrow>
     no_adjacent ty (custom_callback_handler ev buf)"
  by (simp add: custom_callback_handler_def no_adjacent_add_or_append no_adjacent_tool_use
      split: option.splits)

lemma no_adjacent_fold:
  "ty \<noteq> ''tool_use'' \<Longrightarrow> no_adjacent ty buf \<Longrightarrow>
     no_adjacent ty (fold custom_callback_handler evs buf)"
  by (induction evs arbitrary: buf) (simp_all add: no_adjacent_handler)

lemma output_streaming:
  "session_output (streaming_chat_turn t st) = fold custom_callback_handler (events t) []"
  by (simp add: streaming_chat_turn_def Let_def)

text \<open>
  Consecutive fragments of text data, and of reasoning, extend the last entry: the stored
  buffer never has two adjacent text data entries nor two adjacent reasoning entries, and
  the chat history receives one assistant message per stored entry.
\<close>
lemma data_and_reasoning_coalesced:
  "no_adjacent ''data'' (session_output (streaming_chat_turn t st))
   \<and> no_adjacent ''reasoning'' (session_output (streaming_chat_turn t st))
   \<and> messages (streaming_chat_turn t st) =
       messages st @ [\<lparr>msg_role = ''user'', msg_type = None, msg_content = s_prompt t\<rparr>]
       @ map assistant_message (session_output (streaming_chat_turn t st))"
  by (simp add: output_streaming no_adjacent_fold) (simp add: streaming_chat_turn_def Let_def)

text \<open>
  C7 asks the same of tool use, and there the code does not do it: the tool-use branch
  of the handler appends without the test on the last entry that the two other branches
  make. Two consecutive tool-use events of one tool call leave two adjacent tool-use
  entries in the stored buffer.
\<close>
theorem tool_use_fragments_stored_adjacent:
  "session_output (streaming_chat_turn tool_turn new_session) =
     [\<lparr>entry_type = ''tool_use'', entry_content = ''Using tool: get_cost with args: ''\<rparr>,
      \<lparr>entry_type = ''tool_use'',
       entry_content = ''Using tool: get_cost with args: {\"days\": 30}''\<rparr>]
   \<and> \<not> no_adjacent ''tool_use'' (session_output (streaming_chat_turn tool_turn new_session))"
  by (simp add: output_streaming tool_turn_def custom_callback_handler_def tool_use_named_def)

section \<open>Startup, initialisation and cleanup: results\<close>

text \<open>
  C5, as stated, fails: an identifier that has no rates is accepted at startup, and the
  model is built with it.
\<close>
theorem unknown_model_accepted_counterexample:
  "map_of rate_table ''amazon.nova-pro-v1:0'' = None
   \<and> create_model_streaming unknown_model_env =
       Inr \<lparr>model_id = ''amazon.nova-pro-v1:0'', max_tokens = 8192\<rparr>"
  by (simp add: rate_table_def default_model_id_def create_model_streaming_def
      unknown_model_env_def)

text \<open>
  C5, amended: the rates are two constants for one model (3 and 15 dollars per million
  tokens, Claude 3.7 Sonnet), not a table keyed by model identifier, and no identifier
  is ever rejected: docker_app/app.py builds the model with a fixed identifier, and
  docker_app/app_streaming.py with the value of \<^verbatim>\<open>BEDROCK_MODEL_ID\<close> when it is set,
  whatever it is, and with the same default otherwise. The streaming application, the
  only one whose identifier can be overridden, computes no cost.
\<close>
theorem model_id_never_checked:
  "create_model_streaming env =
     Inr \<lparr>model_id = (case map_of env ''BEDROCK_MODEL_ID'' of
                         None \<Rightarrow> default_model_id
                       | Some v \<Rightarrow> v),
          max_tokens = 8192\<rparr>
   \<and> create_model env = Inr \<lparr>model_id = default_model_id, max_tokens = 64000\<rparr>
   \<and> rate_table = [(default_model_id, 3, 15)]
   \<and> totals (streaming_chat_turn t st) = totals st"
  by (simp add: create_model_streaming_def create_model_def rate_table_def totals_streaming)

theorem model_id_never_checked_witness:
  "create_model_streaming unknown_model_env =
     Inr \<lparr>model_id = ''amazon.nova-pro-v1:0'', max_tokens = 8192\<rparr>
   \<and> create_model_streaming [] = Inr \<lparr>model_id = default_model_id, max_tokens = 8192\<rparr>"
  using model_id_never_checked [of unknown_model_env streamed_turn new_session]
    model_id_never_checked [of "[]" streamed_turn new_session]
  by (simp add: unknown_model_env_def)

lemma try_exit_Inr:
  "try_exit name key =
     Inr (case key of
            None \<Rightarrow> []
          | Some c \<Rightarrow>
              (case exit_error c of
                 None \<Rightarrow> [SessionClosed name]
               | Some e \<Rightarrow> [ErrorClosing name e]))"
  by (simp add: try_exit_def exit_client_def split: option.splits)

text \<open>
  C9: \<^verbatim>\<open>cleanup_mcp_clients\<close> never raises: whether \<^verbatim>\<open>__exit__\<close> returns or raises,
  each connection of the session is closed in turn (one report per connection, in order)
  and no exception leaves the routine, in both applications.
\<close>
theorem cleanup_never_raises:
  "(\<exists>r. cleanup_mcp_clients st = Inr r
        \<and> map report_name r =
            (case billing_mcp_client st of None \<Rightarrow> [] | Some c \<Rightarrow> [''Billing''])
            @ (case aws_api_mcp_client st of None \<Rightarrow> [] | Some c \<Rightarrow> [''AWS API'']))
   \<and> (\<exists>r. cleanup_mcp_clients_streaming st = Inr r
        \<and> map report_name r =
            (case billing_mcp_client st of None \<Rightarrow> [] | Some c \<Rightarrow> [''Billing'']))"
  by (simp add: cleanup_mcp_clients_def cleanup_mcp_clients_streaming_def try_exit_Inr
      split: option.splits)

theorem cleanup_never_raises_witness:
  "cleanup_mcp_clients
     (new_session\<lparr>billing_mcp_client := Some failing_client,
                  aws_api_mcp_client := Some working_client\<rparr>) =
     Inr [ErrorClosing ''Billing'' ''not running'', SessionClosed ''AWS API'']
   \<and> cleanup_mcp_clients_streaming (new_session\<lparr>billing_mcp_client := Some failing_client\<rparr>) =
     Inr [ErrorClosing ''Billing'' ''not running'']"
  using cleanup_never_raises [of "new_session\<lparr>billing_mcp_client := Some failing_client,
                  aws_api_mcp_client := Some working_client\<rparr>"]
    cleanup_never_raises [of "new_session\<lparr>billing_mcp_client := Some failing_client\<rparr>"]
  by (simp add: cleanup_mcp_clients_def cleanup_mcp_clients_streaming_def try_exit_Inr
      failing_client_def working_client_def)


lemma snd_start_billing: "snd (start_billing c (st, ts)) = ts @ provider_tools c"
  by (simp add: start_billing_def provider_tools_def Let_def split: option.splits sum.splits)

lemma snd_start_aws_api: "snd (start_aws_api c (st, ts)) = ts @ provider_tools c"
  by (simp add: start_aws_api_def provider_tools_def Let_def split: option.splits sum.splits)

lemma snd_load_tools:
  "snd (load_tools w st) =
     provider_tools (billing_client w)
     @ (if enable_aws_api w \<and> aws_api_client_error w = None
        then provider_tools (aws_api_client w) else [])"
proof -
  obtain st1 ts1 where p: "start_billing (billing_client w) (st, []) = (st1, ts1)"
    by (cases "start_billing (billing_client w) (st, [])")
  have ts1: "ts1 = provider_tools (billing_client w)"
    using snd_start_billing [of "billing_client w" st "[]"] p by simp
  show ?thesis
    by (simp add: load_tools_def Let_def p ts1 snd_start_aws_api split: option.splits)
qed

lemma create_agent_cases:
  "create_agent w ts =
     (if ts \<noteq> [] \<and> tools_display_error w = None \<and> agent_error w ts = None
      then Inr \<lparr>agent_model = the_model w, agent_system_prompt = system_prompt w,
                agent_tools = ts,
                agent_conversation_manager = finops_conversation_manager w\<rparr>
      else new_agent w [])"
  by (auto simp: create_agent_def new_agent_def split: option.splits sum.splits)

lemma new_agent_empty:
  "agent_error w [] = None \<Longrightarrow> new_agent w [] = Inr (fallback_agent w)"
  by (simp add: new_agent_def fallback_agent_def)

text \<open>What the initialisation does once the tools are known.\<close>

lemma finish_init_body:
  assumes "agent_error w [] = None"
  shows "finish_init w (case setup_error w of Some e \<Rightarrow> Inl (e, st) | None \<Rightarrow> init_body w p) =
     Inr ((if setup_error w = None then fst p else st)
           \<lparr>agent := Some (if init_fails w (snd p) then fallback_agent w
                           else (fallback_agent w)\<lparr>agent_tools := snd p\<rparr>)\<rparr>)"
  using assms
  by (cases p)
    (auto simp: finish_init_def init_body_def create_agent_cases new_agent_empty init_fails_def
      fallback_agent_def split: option.splits)

lemma finish_init_agent:
  assumes "finish_init w (case setup_error w of Some e \<Rightarrow> Inl (e, st) | None \<Rightarrow> init_body w p) = Inr st'"
  shows "agent st' \<noteq> None"
  using assms
  by (cases p) (auto simp: finish_init_def init_body_def split: option.splits sum.splits)

lemma finish_init_tools:
  assumes "setup_error w = None" "snd p \<noteq> []" "tools_display_error w = None"
    "agent_error w (snd p) = None"
  shows "\<exists>st'. finish_init w (case setup_error w of Some e \<Rightarrow> Inl (e, st) | None \<Rightarrow> init_body w p) = Inr st'
           \<and> (\<exists>ag. agent st' = Some ag \<and> agent_tools ag = snd p)"
  using assms
  by (cases p) (simp add: finish_init_def init_body_def create_agent_cases)

text \<open>
  C6: when one of the two providers fails to start and the other starts and lists its
  tools, the tool set is exactly the other provider's tools; when these are not empty
  (and listing them on the page and constructing the agent succeed) the agent is created
  with them.
\<close>
theorem provider_isolation:
  assumes failed: "enter_error a \<noteq> None"
    and other: "enter_error b = None" "list_tools_sync b = Inr ts"
    and which: "(billing_client w = a \<and> aws_api_client w = b)
                \<or> (billing_client w = b \<and> aws_api_client w = a)"
    and enabled: "enable_aws_api w" "aws_api_client_error w = None"
    and fresh: "agent st = None" "setup_error w = None"
  shows "snd (load_tools w st) = ts
         \<and> (ts \<noteq> [] \<and> tools_display_error w = None \<and> agent_error w ts = None \<longrightarrow>
              (\<exists>st'. initialize_agent w st = Inr st'
                  \<and> (\<exists>ag. agent st' = Some ag \<and> agent_tools ag = ts)))"
proof -
  have a: "provider_tools a = []"
    using failed by (auto simp: provider_tools_def)
  have b: "provider_tools b = ts"
    using other by (simp add: provider_tools_def)
  have tools: "snd (load_tools w st) = ts"
    using which enabled a b by (auto simp: snd_load_tools)
  have "ts \<noteq> [] \<and> tools_display_error w = None \<and> agent_error w ts = None \<longrightarrow>
          (\<exists>st'. initialize_agent w st = Inr st'
              \<and> (\<exists>ag. agent st' = Some ag \<and> agent_tools ag = ts))"
    using finish_init_tools [of w "load_tools w st" st] fresh tools
    by (simp add: initialize_agent_def)
  with tools show ?thesis by simp
qed

theorem provider_isolation_witness:
  "snd (load_tools example_world new_session) = [''call_aws'', ''suggest_aws_commands'']
   \<and> (\<exists>st'. initialize_agent example_world new_session = Inr st'
          \<and> (\<exists>ag. agent st' = Some ag
                 \<and> agent_tools ag = [''call_aws'', ''suggest_aws_commands'']))"
proof -
  have h1: "enter_error failing_client \<noteq> None" by (simp add: failing_client_def)
  have h2: "enter_error working_client = None" by (simp add: working_client_def)
  have h3: "list_tools_sync working_client = Inr [''call_aws'', ''suggest_aws_commands'']"
    by (simp add: working_client_def)
  have h4: "(billing_client example_world = failing_client
               \<and> aws_api_client example_world = working_client)
            \<or> (billing_client example_world = working_client
               \<and> aws_api_client example_world = failing_client)"
    by (simp add: example_world_def)
  have h5: "enable_aws_api example_world" "aws_api_client_error example_world = None"
    "agent new_session = None" "setup_error example_world = None"
    by (simp_all add: example_world_def new_session_def)
  from provider_isolation [OF h1 h2 h3 h4 h5]
  show ?thesis by (simp add: example_world_def)
qed

text \<open>
  C10: whenever the initialisation completes, the session holds an agent; and when an
  agent without tools can be constructed, the initialisation always completes, and on
  every failure path (no tools loaded, an error while loading them, any other exception
  of the initialisation) the agent is the fallback agent: no tools, the same model,
  system prompt and conversation manager. Both applications.
\<close>
theorem agent_always_constructed:
  "(\<forall>st'. initialize_agent w st = Inr st' \<longrightarrow> agent st' \<noteq> None)
   \<and> (\<forall>st'. initialize_agent_streaming w st = Inr st' \<longrightarrow> agent st' \<noteq> None)
   \<and> (agent_error w [] = None \<longrightarrow>
        (\<exists>st'. initialize_agent w st = Inr st'
            \<and> (agent st = None \<and> init_fails w (snd (load_tools w st)) \<longrightarrow>
                 agent st' = Some (fallback_agent w)))
        \<and> (\<exists>st'. initialize_agent_streaming w st = Inr st'
            \<and> (agent st = None \<and> init_fails w (snd (load_tools_streaming w st)) \<longrightarrow>
                 agent st' = Some (fallback_agent w))))"
proof (intro conjI allI impI)
  fix st'
  assume "initialize_agent w st = Inr st'"
  then show "agent st' \<noteq> None"
    by (cases "agent st = None") (auto simp: initialize_agent_def dest: finish_init_agent)
next
  fix st'
  assume "initialize_agent_streaming w st = Inr st'"
  then show "agent st' \<noteq> None"
    by (cases "agent st = None")
      (auto simp: initialize_agent_streaming_def dest: finish_init_agent)
next
  assume ok: "agent_error w [] = None"
  show "\<exists>st'. initialize_agent w st = Inr st'
            \<and> (agent st = None \<and> init_fails w (snd (load_tools w st)) \<longrightarrow>
                 agent st' = Some (fallback_agent w))"
  proof (cases "agent st = None")
    case True
    then show ?thesis
      by (simp add: initialize_agent_def finish_init_body [OF ok])
  next
    case False
    then show ?thesis by (simp add: initialize_agent_def)
  qed
  show "\<exists>st'. initialize_agent_streaming w st = Inr st'
            \<and> (agent st = None \<and> init_fails w (snd (load_tools_streaming w st)) \<longrightarrow>
                 agent st' = Some (fallback_agent w))"
  proof (cases "agent st = None")
    case True
    then show ?thesis
      by (simp add: initialize_agent_streaming_def finish_init_body [OF ok])
  next
    case False
    then show ?thesis by (simp add: initialize_agent_streaming_def)
  qed
qed

theorem agent_always_constructed_witness:
  "(\<exists>st'. initialize_agent all_failing_world new_session = Inr st'
        \<and> agent st' = Some (fallback_agent all_failing_world))
   \<and> (\<exists>st'. initialize_agent_streaming all_failing_world new_session = Inr st'
        \<and> agent st' = Some (fallback_agent all_failing_world))
   \<and> agent_tools (fallback_agent all_failing_world) = []"
proof -
  have ok: "agent_error all_failing_world [] = None"
    by (simp add: all_failing_world_def example_world_def)
  have fresh: "agent new_session = None" by (simp add: new_session_def)
  have t1: "load_tools all_failing_world new_session = (new_session, [])"
    by (simp add: load_tools_def start_billing_def start_aws_api_def all_failing_world_def
        example_world_def failing_client_def)
  have t2: "load_tools_streaming all_failing_world new_session = (new_session, [])"
    by (simp add: load_tools_streaming_def start_billing_def all_failing_world_def
        example_world_def failing_client_def)
  have f1: "init_fails all_failing_world (snd (load_tools all_failing_world new_session))"
    by (simp add: t1 init_fails_def)
  have f2: "init_fails all_failing_world
              (snd (load_tools_streaming all_failing_world new_session))"
    by (simp add: t2 init_fails_def)
  from agent_always_constructed [of all_failing_world new_session] ok fresh f1 f2
  show ?thesis by (simp add: fallback_agent_def)
qed

end
